theory Spec2Isabelle
  imports Main
begin

text \<open>
  A shallow embedding of the derivation engine of goderive: the canonical type label, the
  call-site finder, the driver loop of \<^verbatim>\<open>main\<close>, and the generators for deep copy, comparison
  and equality with the functions they print. The parser, the type checker, the printer and
  the registry are collaborators of the engine; what the engine reads from them is a
  parameter of the definitions below.
\<close>

section \<open>The type model consumed by the generators (go/types)\<close>

text \<open>
  The generators switch on the dynamic shape of a \<^verbatim>\<open>types.Type\<close>. The shapes are a closed
  datatype here. A named type carries its package path, its name, its method set and its
  underlying type; a struct carries its fields in declaration order. Go types that refer to
  themselves (\<^verbatim>\<open>type T struct { next *T }\<close>) have no finite term of this datatype and are
  outside the model.
\<close>

datatype basic_kind =
    Invalid
  | KBool | KInt | KInt8 | KInt16 | KInt32 | KInt64
  | KUint | KUint8 | KUint16 | KUint32 | KUint64 | KUintptr
  | KFloat32 | KFloat64 | KComplex64 | KComplex128
  | KString | UnsafePointer
  | UntypedBool | UntypedInt | UntypedRune | UntypedFloat | UntypedComplex
  | UntypedString | UntypedNil

text \<open>The result list of a method signature: only the shape the generators look at.\<close>

datatype result_type = ResBasic basic_kind | ResOther

record method_sig =
  meth_Name :: string
  meth_Params :: nat
  meth_Results :: "result_type list"

datatype gotype =
    Basic basic_kind
  | Named string string "method_sig list" gotype
  | Pointer gotype
  | Array int gotype
  | Slice gotype
  | Map gotype gotype
  | Struct "(string \<times> gotype) list"
  | Chan gotype
  | Signature "gotype list" "gotype list"
  | Interface

fun Underlying :: "gotype \<Rightarrow> gotype" where
  "Underlying (Named pkg n ms u) = u"
| "Underlying t = t"

text \<open>\<^verbatim>\<open>types.Identical\<close> on the modelled shapes is equality of the descriptors.\<close>

definition Identical :: "gotype \<Rightarrow> gotype \<Rightarrow> bool" where
  "Identical t u = (t = u)"

section \<open>String helpers of the Go standard library\<close>

definition HasPrefix :: "string \<Rightarrow> string \<Rightarrow> bool" where
  "HasPrefix s pre = (take (length pre) s = pre)"

definition HasSuffix :: "string \<Rightarrow> string \<Rightarrow> bool" where
  "HasSuffix s suf = (length suf \<le> length s \<and> drop (length s - length suf) s = suf)"

text \<open>
  \<^verbatim>\<open>filepath.Split\<close>: the path is cut right after its last separator; with no separator the
  directory is empty and the file is the whole path.
\<close>

definition filepath_Split :: "string \<Rightarrow> string \<times> string" where
  "filepath_Split path =
     (let file = rev (takeWhile (\<lambda>c. c \<noteq> CHR ''/'') (rev path))
      in (take (length path - length file) path, file))"

definition digit_char :: "nat \<Rightarrow> char" where
  "digit_char d = char_of (48 + d)"

fun digits :: "nat \<Rightarrow> string" where
  "digits n = (if n < 10 then [digit_char n] else digits (n div 10) @ [digit_char (n mod 10)])"

declare digits.simps [simp del]

definition Itoa :: "int \<Rightarrow> string" where
  "Itoa i = (if i < 0 then CHR ''-'' # digits (nat (- i)) else digits (nat i))"

fun Join :: "string list \<Rightarrow> string \<Rightarrow> string" where
  "Join [] sep = []"
| "Join [s] sep = s"
| "Join (s # ss) sep = s @ sep @ Join ss sep"

section \<open>helper.go: the canonical type label\<close>

fun basic_name :: "basic_kind \<Rightarrow> string" where
  "basic_name Invalid = ''invalid type''"
| "basic_name KBool = ''bool''"
| "basic_name KInt = ''int''"
| "basic_name KInt8 = ''int8''"
| "basic_name KInt16 = ''int16''"
| "basic_name KInt32 = ''int32''"
| "basic_name KInt64 = ''int64''"
| "basic_name KUint = ''uint''"
| "basic_name KUint8 = ''uint8''"
| "basic_name KUint16 = ''uint16''"
| "basic_name KUint32 = ''uint32''"
| "basic_name KUint64 = ''uint64''"
| "basic_name KUintptr = ''uintptr''"
| "basic_name KFloat32 = ''float32''"
| "basic_name KFloat64 = ''float64''"
| "basic_name KComplex64 = ''complex64''"
| "basic_name KComplex128 = ''complex128''"
| "basic_name KString = ''string''"
| "basic_name UnsafePointer = ''unsafe.Pointer''"
| "basic_name UntypedBool = ''untyped bool''"
| "basic_name UntypedInt = ''untyped int''"
| "basic_name UntypedRune = ''untyped rune''"
| "basic_name UntypedFloat = ''untyped float''"
| "basic_name UntypedComplex = ''untyped complex''"
| "basic_name UntypedString = ''untyped string''"
| "basic_name UntypedNil = ''untyped nil''"

text \<open>
  \<^verbatim>\<open>types.TypeString(typ, qual)\<close> belongs to the Go standard library. It prints a type in Go
  syntax; a named type is printed as its name, preceded by the qualifier of its package and a
  dot unless the qualifier is empty (\<^verbatim>\<open>types.RelativeTo(pkg)\<close> gives the empty qualifier for
  \<^verbatim>\<open>pkg\<close> itself).
\<close>

fun TypeString :: "gotype \<Rightarrow> (string \<Rightarrow> string) \<Rightarrow> string" where
  "TypeString (Basic k) qual = basic_name k"
| "TypeString (Named pkg n ms u) qual =
     (if qual pkg = [] then n else qual pkg @ ''.'' @ n)"
| "TypeString (Pointer t) qual = ''*'' @ TypeString t qual"
| "TypeString (Array n t) qual = ''['' @ Itoa n @ '']'' @ TypeString t qual"
| "TypeString (Slice t) qual = ''[]'' @ TypeString t qual"
| "TypeString (Map k v) qual = ''map['' @ TypeString k qual @ '']'' @ TypeString v qual"
| "TypeString (Struct fs) qual =
     ''struct{'' @ Join (map (\<lambda>f. fst f @ '' '' @ TypeString (snd f) qual) fs) ''; '' @ ''}''"
| "TypeString (Chan t) qual = ''chan '' @ TypeString t qual"
| "TypeString (Signature ps rs) qual =
     ''func('' @ Join (map (\<lambda>t. TypeString t qual) ps) '', '' @ '')'' @
     (case rs of [] \<Rightarrow> [] | [r] \<Rightarrow> '' '' @ TypeString r qual
      | _ \<Rightarrow> '' ('' @ Join (map (\<lambda>t. TypeString t qual) rs) '', '' @ '')'')"
| "TypeString Interface qual = ''interface{}''"

fun typeName :: "gotype \<Rightarrow> (string \<Rightarrow> string) \<Rightarrow> string" where
  "typeName (Pointer t) qual = ''PtrTo'' @ typeName t qual"
| "typeName (Array n t) qual = ''Array'' @ Itoa n @ ''Of'' @ typeName t qual"
| "typeName (Slice t) qual = ''SliceOf'' @ typeName t qual"
| "typeName (Map k v) qual = ''MapOf'' @ typeName k qual @ ''To'' @ typeName v qual"
| "typeName typ qual = TypeString typ qual"


text \<open>
  \<^verbatim>\<open>types.RelativeTo(pkg)\<close>: the qualifier that leaves out the name of \<^verbatim>\<open>pkg\<close> itself and
  prints the path of every other package.
\<close>

definition RelativeTo :: "string \<Rightarrow> string \<Rightarrow> string" where
  "RelativeTo pkg other = (if other = pkg then [] else other)"



section \<open>derive/find.go: the call-site finder\<close>

definition derivedFilename :: string where
  "derivedFilename = ''derived.gen.go''"

text \<open>
  The syntax nodes the visitor distinguishes: a call expression with its callee and its
  arguments, or any other node. An identifier is told apart from other identifiers of the
  same name by its position, as the \<^verbatim>\<open>*ast.Ident\<close> keys of \<^verbatim>\<open>pkgInfo.Uses\<close> are.
\<close>

datatype expr = Ident nat string | SelectorExpr expr string | Lit string

datatype node = CallExpr expr "expr list" | OtherNode

text \<open>
  A \<^verbatim>\<open>types.Object\<close>: a \<^verbatim>\<open>*types.Builtin\<close>, or any other object with its name and the
  position of its declaration.
\<close>

datatype object = Builtin string | Object string nat

record pkgenv =
  Uses :: "expr \<rightharpoonup> object"
  Fset_File :: "nat \<Rightarrow> string option"
  TypeOf :: "expr \<Rightarrow> gotype option"

record finder =
  f_undefined :: "node list"
  f_derived :: "node list"
  f_funcNames :: "string set"

fun Visit :: "pkgenv \<Rightarrow> finder \<Rightarrow> node \<Rightarrow> finder" where
  "Visit env this OtherNode = this"
| "Visit env this (CallExpr (Ident p n) args) =
     (case Uses env (Ident p n) of
        None \<Rightarrow> this\<lparr>f_undefined := f_undefined this @ [CallExpr (Ident p n) args]\<rparr>
      | Some (Builtin b) \<Rightarrow> this
      | Some (Object nm dpos) \<Rightarrow>
          (case Fset_File env dpos of
             None \<Rightarrow> this
           | Some fname \<Rightarrow>
               if snd (filepath_Split fname) = derivedFilename
               then this\<lparr>f_derived := f_derived this @ [CallExpr (Ident p n) args]\<rparr>
               else this\<lparr>f_funcNames := insert n (f_funcNames this)\<rparr>))"
| "Visit env this (CallExpr fn args) = this"

text \<open>\<^verbatim>\<open>ast.Walk\<close> hands the visitor the nodes in traversal order.\<close>

fun Walk :: "pkgenv \<Rightarrow> finder \<Rightarrow> node list \<Rightarrow> finder" where
  "Walk env this [] = this"
| "Walk env this (n # ns) = Walk env (Visit env this n) ns"

definition new_finder :: finder where
  "new_finder = \<lparr>f_undefined = [], f_derived = [], f_funcNames = {}\<rparr>"

record Call =
  Expr :: node
  Name :: string
  Args :: "gotype option list"

fun getInputTypes :: "pkgenv \<Rightarrow> node \<Rightarrow> gotype option list" where
  "getInputTypes env (CallExpr fn args) = map (TypeOf env) args"
| "getInputTypes env OtherNode = []"

text \<open>\<^verbatim>\<open>newCall\<close> panics on a callee that is not an identifier.\<close>

fun newCall :: "pkgenv \<Rightarrow> node \<Rightarrow> Call option" where
  "newCall env (CallExpr (Ident p n) args) =
     Some \<lparr>Expr = CallExpr (Ident p n) args, Name = n,
           Args = getInputTypes env (CallExpr (Ident p n) args)\<rparr>"
| "newCall env e = None"

fun HasUndefined_args :: "gotype option list \<Rightarrow> bool" where
  "HasUndefined_args [] = False"
| "HasUndefined_args (None # as) = True"
| "HasUndefined_args (Some (Basic k) # as) = (if k = Invalid then True else HasUndefined_args as)"
| "HasUndefined_args (Some t # as) = HasUndefined_args as"

definition HasUndefined :: "Call \<Rightarrow> bool" where
  "HasUndefined c = HasUndefined_args (Args c)"

section \<open>The driver loop (main)\<close>

text \<open>
  What the driver consumes from its collaborators is made explicit. A generator has a name
  and a prefix; the plugin behind it answers \<^verbatim>\<open>Add\<close> with an error or the assigned name. Each
  pass of the loop reads one \<^verbatim>\<open>pass_input\<close>: the outcome of reloading the package, the source
  files with the calls found in them, and the outcomes of generating and of writing the
  derived file. Every \<^verbatim>\<open>log.Fatal\<close> and the panic end the run with a value of \<^verbatim>\<open>fatal\<close>.
  The inner loop that calls \<^verbatim>\<open>Generate\<close> until every plugin is done runs code of the
  plugins only; a pass input stands for a pass in which that loop has ended, with an error or
  without.
\<close>

record generator =
  gen_Name :: string
  gen_Prefix :: string

datatype fatal =
    LoadError string
  | AddError string string
  | RenamePanic
  | RewriteError string
  | CannotGenerate node
  | GenerateError string
  | WriteError string

datatype event =
    Reloaded
  | Renamed string string
  | Rewrote string
  | CouldNotYet node
  | WroteDerived

record config =
  generators :: "generator list"
  plugin_Add :: "string \<Rightarrow> string \<Rightarrow> gotype option list \<Rightarrow> string + string"
  autoname :: bool
  dedup :: bool

record src_file =
  fullpath :: "string option"
  calls :: "Call list"
  rewrite_error :: "string option"

record pass_input =
  load_error :: "string option"
  files :: "src_file list"
  generate_error :: "string option"
  HasContent :: bool
  write_error :: "string option"

text \<open>
  The closure \<^verbatim>\<open>generated\<close>: the first generator whose prefix the call's name starts with
  gets the call. \<^verbatim>\<open>Inr None\<close> is the answer \<^verbatim>\<open>false\<close>, \<^verbatim>\<open>Inr (Some name)\<close> the answer
  \<^verbatim>\<open>true\<close> with the name the plugin assigned.
\<close>

fun generated :: "config \<Rightarrow> generator list \<Rightarrow> Call \<Rightarrow> fatal + string option" where
  "generated cfg [] call = Inr None"
| "generated cfg (g # gs) call =
     (if \<not> HasPrefix (Name call) (gen_Prefix g) then generated cfg gs call
      else (case plugin_Add cfg (gen_Name g) (Name call) (Args call) of
              Inl err \<Rightarrow> Inl (AddError (gen_Name g) err)
            | Inr name \<Rightarrow>
                if name \<noteq> Name call \<and> \<not> autoname cfg \<and> \<not> dedup cfg then Inl RenamePanic
                else Inr (Some name)))"

text \<open>
  The loop over the calls of one file. The accumulator holds \<^verbatim>\<open>notgenerated\<close>, the flag
  \<^verbatim>\<open>changed\<close> and the log.
\<close>

fun scan_calls ::
  "config \<Rightarrow> Call list \<Rightarrow> node list \<times> bool \<times> event list \<Rightarrow>
   fatal + node list \<times> bool \<times> event list" where
  "scan_calls cfg [] acc = Inr acc"
| "scan_calls cfg (call # cs) (notgenerated, changed, log) =
     (if HasUndefined call then scan_calls cfg cs (notgenerated @ [Expr call], changed, log)
      else (case generated cfg (generators cfg) call of
              Inl f \<Rightarrow> Inl f
            | Inr None \<Rightarrow> scan_calls cfg cs (notgenerated @ [Expr call], changed, log)
            | Inr (Some name) \<Rightarrow>
                if name \<noteq> Name call
                then scan_calls cfg cs (notgenerated, True, log @ [Renamed (Name call) name])
                else scan_calls cfg cs (notgenerated, changed, log)))"

text \<open>The loop over the files of the package; \<^verbatim>\<open>changed\<close> starts afresh in every file.\<close>

fun scan_files ::
  "config \<Rightarrow> src_file list \<Rightarrow> node list \<times> event list \<Rightarrow> fatal + node list \<times> event list" where
  "scan_files cfg [] acc = Inr acc"
| "scan_files cfg (file # fs) (notgenerated, log) =
     (case fullpath file of
        None \<Rightarrow> scan_files cfg fs (notgenerated, log)
      | Some path \<Rightarrow>
          if snd (filepath_Split path) = derivedFilename
          then scan_files cfg fs (notgenerated, log)
          else (case scan_calls cfg (calls file) (notgenerated, False, log) of
                  Inl f \<Rightarrow> Inl f
                | Inr (notgenerated', changed, log') \<Rightarrow>
                    if changed
                    then (case rewrite_error file of
                            Some err \<Rightarrow> Inl (RewriteError err)
                          | None \<Rightarrow> scan_files cfg fs (notgenerated', log' @ [Rewrote path]))
                    else scan_files cfg fs (notgenerated', log')))"

text \<open>
  One turn of the loop body, from the reload to the writing of the derived file. The result
  is the log of the pass and either the fatal error that ended the run or the new value of
  \<^verbatim>\<open>ungenerated\<close>.
\<close>

definition one_pass :: "config \<Rightarrow> int \<Rightarrow> pass_input \<Rightarrow> event list \<times> (fatal + int)" where
  "one_pass cfg ungenerated inp =
     (if ungenerated > 0 \<and> load_error inp \<noteq> None
      then ([], Inl (LoadError (the (load_error inp))))
      else
        let log0 = (if ungenerated > 0 then [Reloaded] else []) in
        (case scan_files cfg (files inp) ([], log0) of
           Inl f \<Rightarrow> (log0, Inl f)
         | Inr (notgenerated, log1) \<Rightarrow>
             if length notgenerated > 0 \<and> ungenerated = int (length notgenerated)
             then (log1, Inl (CannotGenerate (hd notgenerated)))
             else
               let log2 = log1 @ map CouldNotYet notgenerated in
               (case generate_error inp of
                  Some err \<Rightarrow> (log2, Inl (GenerateError err))
                | None \<Rightarrow>
                    if HasContent inp
                    then (case write_error inp of
                            Some err \<Rightarrow> (log2, Inl (WriteError err))
                          | None \<Rightarrow> (log2 @ [WroteDerived], Inr (int (length notgenerated))))
                    else (log2, Inr (int (length notgenerated))))))"

text \<open>
  The loop \<^verbatim>\<open>for ungenerated != 0\<close> of one package. The passes that the environment can
  still answer are a list; when the list is used up while the loop would go on, the result is
  \<^verbatim>\<open>None\<close>.
\<close>

datatype run_result = ExitOK | Aborted fatal

fun package_loop ::
  "config \<Rightarrow> int \<Rightarrow> pass_input list \<Rightarrow> event list \<times> run_result option" where
  "package_loop cfg ungenerated [] = ([], if ungenerated = 0 then Some ExitOK else None)"
| "package_loop cfg ungenerated (inp # rest) =
     (if ungenerated = 0 then ([], Some ExitOK)
      else (case one_pass cfg ungenerated inp of
              (log, Inl f) \<Rightarrow> (log, Some (Aborted f))
            | (log, Inr n) \<Rightarrow>
                (case package_loop cfg n rest of (log', r) \<Rightarrow> (log @ log', r))))"

definition run_package :: "config \<Rightarrow> pass_input list \<Rightarrow> event list \<times> run_result option" where
  "run_package cfg passes = package_loop cfg (- 1) passes"

section \<open>The printer and the registry, as the generators use them\<close>

text \<open>
  A generator writes its function through \<^verbatim>\<open>p.P\<close>, \<^verbatim>\<open>p.In\<close> and \<^verbatim>\<open>p.Out\<close>. What it has
  written is the list of these events; a generator function returns that list together with
  the error it ended with, if any, so that output written before an error is kept, as it is in
  the printer.
\<close>

datatype pev = P string | In | Out

datatype gen_error =
    NotTwoArguments string
  | DifferentTypes string gotype gotype
  | UnsupportedCopyToType gotype
  | UnsupportedFieldType gotype
  | UnsupportedCompareType gotype
  | UnsupportedType gotype
  | UnsupportedPointer gotype
  | SuffixMismatch string string string
  | NotAStruct gotype
  | IndexOutOfRange
  | RegistryError string

type_synonym emitted = "pev list \<times> gen_error option"

definition and_then :: "emitted \<Rightarrow> emitted \<Rightarrow> emitted" where
  "and_then r k =
     (case r of
        (out, Some e) \<Rightarrow> (out, Some e)
      | (out, None) \<Rightarrow> (case k of (out', r') \<Rightarrow> (out @ out', r')))"

definition emit :: "pev list \<Rightarrow> emitted" where
  "emit out = (out, None)"

definition fail :: "gen_error \<Rightarrow> emitted" where
  "fail e = ([], Some e)"

text \<open>A loop whose body may return an error: the first error ends the loop.\<close>

fun for_each :: "('a \<Rightarrow> emitted) \<Rightarrow> 'a list \<Rightarrow> emitted" where
  "for_each body [] = ([], None)"
| "for_each body (x # xs) = and_then (body x) (for_each body xs)"

lemma for_each_cong [fundef_cong]:
  "xs = ys \<Longrightarrow> (\<And>x. x \<in> set ys \<Longrightarrow> f x = g x) \<Longrightarrow> for_each f xs = for_each g ys"
  by (induction ys arbitrary: xs) auto

text \<open>
  The fields of a generator that the code under verification reads but does not define: the
  registry (\<^verbatim>\<open>derive.TypesMap\<close>) with the names it assigns and the type strings it prints, the
  names that the registries of the keys and the sort plugin assign, the aliases under which
  the printer imports packages, and which fields of a struct cannot be reached from the
  package that is generated for.
\<close>

record genv =
  tm_TypeString :: "gotype \<Rightarrow> string"
  tm_GetFuncName :: "gotype \<Rightarrow> string"
  tm_SetFuncName :: "string \<Rightarrow> gotype \<Rightarrow> gen_error + string"
  keys_GetFuncName :: "gotype \<Rightarrow> string"
  sort_GetFuncName :: "gotype \<Rightarrow> string"
  bytesPkg :: string
  stringsPkg :: string
  reflectPkg :: string
  unsafePkg :: string
  inaccessible :: "string \<Rightarrow> bool"

text \<open>
  Modelled from the spec: \<^verbatim>\<open>derive.Fields\<close>, \<^verbatim>\<open>Field.Private\<close> and \<^verbatim>\<open>Field.Name\<close> are not
  among the sources. A field has its position in declaration order, its type and a visibility
  flag; the aggregate requires low-level access (\<^verbatim>\<open>Reflect\<close>) if any field is inaccessible.
  \<^verbatim>\<open>Field.Name\<close> gives the expression that denotes the field of a receiver: the ordinary
  selector, which is all it can give when it is called without the import of \<^verbatim>\<open>unsafe\<close>,
  or, for an inaccessible field, the address computation on the reflected value of the
  receiver.
\<close>

record field_info =
  fld_name :: string
  fld_Type :: gotype
  fld_typeStr :: string
  fld_Private :: bool

record fields =
  Fields :: "field_info list"
  Reflect :: bool

definition new_field :: "genv \<Rightarrow> string \<times> gotype \<Rightarrow> field_info" where
  "new_field env f =
     \<lparr>fld_name = fst f, fld_Type = snd f, fld_typeStr = tm_TypeString env (snd f),
      fld_Private = inaccessible env (fst f)\<rparr>"

definition derive_Fields :: "genv \<Rightarrow> (string \<times> gotype) list \<Rightarrow> fields" where
  "derive_Fields env strct =
     \<lparr>Fields = map (new_field env) strct,
      Reflect = list_ex (\<lambda>f. fld_Private (new_field env f)) strct\<rparr>"

definition ordinary_access :: "field_info \<Rightarrow> string \<Rightarrow> string" where
  "ordinary_access f recv = recv @ ''.'' @ fld_name f"

definition fallback_access :: "field_info \<Rightarrow> string \<Rightarrow> string \<Rightarrow> string" where
  "fallback_access f recv unsafe =
     ''*(*'' @ fld_typeStr f @ '')('' @ unsafe @ ''.Pointer('' @ recv @ ''.FieldByName(''
       @ [CHR 0x22] @ fld_name f @ [CHR 0x22] @ '').UnsafeAddr()))''"

definition field_Name :: "field_info \<Rightarrow> string \<Rightarrow> string option \<Rightarrow> string" where
  "field_Name f recv unsafe =
     (case unsafe of
        None \<Rightarrow> ordinary_access f recv
      | Some u \<Rightarrow> if fld_Private f then fallback_access f recv u else ordinary_access f recv)"

text \<open>Sizes of the parts of a type, for the termination of the generators.\<close>

lemma size_Underlying: "size (Underlying t) \<le> size t"
  by (cases t) simp_all

lemma size_struct_field: "f \<in> set fs \<Longrightarrow> size (snd f) < size (Struct fs)"
  by (induction fs) (auto simp: less_Suc_eq_le)

lemma size_Underlying_struct:
  "Underlying t = Struct fs \<Longrightarrow> f \<in> set fs \<Longrightarrow> size (snd f) < size t"
  using size_Underlying [of t] size_struct_field [of f fs] by simp

lemma size_Underlying_pointer: "Underlying t = Pointer e \<Longrightarrow> size e < size t"
  using size_Underlying [of t] by simp

lemma size_Underlying_array: "Underlying t = Array n e \<Longrightarrow> size e < size t"
  using size_Underlying [of t] by simp

lemma size_Underlying_slice: "Underlying t = Slice e \<Longrightarrow> size e < size t"
  using size_Underlying [of t] by simp

lemma size_Underlying_map:
  "Underlying t = Map k e \<Longrightarrow> size k < size t \<and> size e < size t"
  using size_Underlying [of t] by simp

lemma size_pointer_struct_field:
  assumes "Underlying typ = Pointer r" and "Underlying r = Struct fs" and "(a, b) \<in> set fs"
  shows "Suc (2 * size b) < 2 * size typ"
proof -
  have "size b < size r" using assms(2,3) size_Underlying_struct [of r fs "(a, b)"] by simp
  moreover have "size r < size typ" using assms(1) by (rule size_Underlying_pointer)
  ultimately show ?thesis by simp
qed

section \<open>plugin/copyto/copyto.go: the deep-copy generator\<close>

definition nullable :: "gotype \<Rightarrow> bool" where
  "nullable typ = (case typ of Pointer e \<Rightarrow> True | Slice e \<Rightarrow> True | Map k e \<Rightarrow> True | _ \<Rightarrow> False)"

definition copyto_wrap :: "string \<Rightarrow> string" where
  "copyto_wrap v =
     (if HasPrefix v ''*'' \<or> HasPrefix v ''&'' \<or> HasSuffix v '']''
      then ''('' @ v @ '')'' else v)"

text \<open>
  \<^verbatim>\<open>prepend\<close>: the part of \<^verbatim>\<open>before\<close> in front of its first dot, without its stars, then
  an underscore and \<^verbatim>\<open>after\<close>.
\<close>

definition prepend :: "string \<Rightarrow> string \<Rightarrow> string" where
  "prepend before after =
     filter (\<lambda>c. c \<noteq> CHR ''*'') (takeWhile (\<lambda>c. c \<noteq> CHR ''.'') before) @ ''_'' @ after"

function canCopy :: "gotype \<Rightarrow> bool" where
  "canCopy tt =
     (case Underlying tt of
        Basic k \<Rightarrow> k \<noteq> UntypedNil
      | Struct fs \<Rightarrow> list_all (\<lambda>f. canCopy (snd f)) fs
      | Array n e \<Rightarrow> canCopy e
      | _ \<Rightarrow> False)"
  by pat_completeness auto
termination
  by (relation "measure size")
     (auto dest: size_Underlying_struct size_Underlying_array)

declare canCopy.simps [simp del]

fun hasCopyToMethod_loop :: "method_sig list \<Rightarrow> bool" where
  "hasCopyToMethod_loop [] = False"
| "hasCopyToMethod_loop (m # ms) =
     (if meth_Name m \<noteq> ''CopyTo'' then hasCopyToMethod_loop ms
      else if meth_Params m \<noteq> 1 then hasCopyToMethod_loop ms
      else if length (meth_Results m) \<noteq> 0 then hasCopyToMethod_loop ms
      else True)"

text \<open>\<^verbatim>\<open>hasCopyToMethod\<close> is only called on a \<^verbatim>\<open>*types.Named\<close>.\<close>

fun hasCopyToMethod :: "gotype \<Rightarrow> bool" where
  "hasCopyToMethod (Named pkg n ms u) = hasCopyToMethod_loop ms"
| "hasCopyToMethod t = False"

fun isNamed :: "gotype \<Rightarrow> bool" where
  "isNamed (Named pkg n ms u) = True"
| "isNamed t = False"

text \<open>
  The choice of the access path of one field in the loop over the fields of a struct: the
  ordinary selector on the receiver, or \<^verbatim>\<open>Field.Name\<close> on the reflected value with the
  import of \<^verbatim>\<open>unsafe\<close>.
\<close>

definition field_access :: "genv \<Rightarrow> field_info \<Rightarrow> string \<Rightarrow> string \<Rightarrow> string" where
  "field_access env field recv recvv =
     (if \<not> fld_Private field then field_Name field recv None
      else field_Name field recvv (Some (unsafePkg env)))"

definition reflect_preamble :: "genv \<Rightarrow> string \<Rightarrow> string \<Rightarrow> pev" where
  "reflect_preamble env v recv =
     P (v @ '' := '' @ reflectPkg env @ ''.Indirect('' @ reflectPkg env @ ''.ValueOf('' @ recv @ ''))'')"

text \<open>The statements that \<^verbatim>\<open>genField\<close> prints for a slice before it copies the elements.\<close>

definition slice_resize_lines :: "genv \<Rightarrow> gotype \<Rightarrow> string \<Rightarrow> string \<Rightarrow> pev list" where
  "slice_resize_lines env typ thisField thatField =
     [P (''if '' @ thatField @ '' != nil {''), In,
        P (''if len('' @ thisField @ '') > len('' @ thatField @ '') {''), In,
          P (''if cap('' @ thatField @ '') >= len('' @ thisField @ '') {''), In,
            P (thatField @ '' = ('' @ thatField @ '')[:len('' @ thisField @ '')]''), Out,
          P ''} else {'', In,
            P (thatField @ '' = make('' @ tm_TypeString env typ @ '', len('' @ thisField @ ''))''),
          Out, P ''}'', Out,
        P (''} else if len('' @ thisField @ '') < len('' @ thatField @ '') {''), In,
          P (thatField @ '' = ('' @ thatField @ '')[:len('' @ thisField @ '')]''), Out,
        P ''}'', Out,
      P ''} else {'', In,
        P (thatField @ '' = make('' @ tm_TypeString env typ @ '', len('' @ thisField @ ''))''),
      Out, P ''}'']"

text \<open>
  \<^verbatim>\<open>genStatement\<close> and \<^verbatim>\<open>genField\<close> call each other. Both look at the type itself first
  (\<^verbatim>\<open>canCopy\<close>) and then at its underlying type. The loop over \<^verbatim>\<open>fields.Fields\<close> is written
  as a loop over the fields of the struct, each made into a field of \<^verbatim>\<open>derive.Fields\<close> where
  it is used. An error returned by \<^verbatim>\<open>genField\<close> ends \<^verbatim>\<open>genStatement\<close> at once; the error that
  \<^verbatim>\<open>genStatement\<close> returns inside \<^verbatim>\<open>genField\<close>, in the case of an array, is dropped there.
\<close>

function copyto_genStatement :: "genv \<Rightarrow> gotype \<Rightarrow> string \<Rightarrow> string \<Rightarrow> emitted"
  and copyto_genField :: "genv \<Rightarrow> gotype \<Rightarrow> string \<Rightarrow> string \<Rightarrow> emitted" where
  "copyto_genStatement env typ this that =
     (if canCopy typ then emit [P (that @ '' = '' @ this)]
      else
        (case Underlying typ of
           Pointer reftyp \<Rightarrow>
             (case Underlying reftyp of
                Struct strct \<Rightarrow>
                  if isNamed reftyp
                  then
                    (let fields = derive_Fields env strct;
                         thisv = prepend this ''v'';
                         thatv = prepend that ''v''
                     in if length (Fields fields) > 0
                        then and_then
                          (emit (if Reflect fields
                                 then [reflect_preamble env thisv this,
                                       reflect_preamble env thatv that]
                                 else []))
                          (for_each
                             (\<lambda>f. copyto_genField env (snd f)
                                     (field_access env (new_field env f) this thisv)
                                     (field_access env (new_field env f) that thatv))
                             strct)
                        else emit [])
                  else fail (UnsupportedCopyToType typ)
              | _ \<Rightarrow> copyto_genField env reftyp (''*'' @ this) (''*'' @ that))
         | Slice elmType \<Rightarrow>
             if canCopy elmType then emit [P (''copy('' @ that @ '', '' @ this @ '')'')]
             else
               and_then
                 (emit [P (''for '' @ prepend this ''i'' @ '', '' @ prepend this ''value''
                           @ '' := range '' @ this @ '' {''), In])
                 (and_then
                   (copyto_genField env elmType (prepend this ''value'')
                      (copyto_wrap that @ ''['' @ prepend this ''i'' @ '']''))
                   (emit [Out, P ''}'']))
         | Array n elmType \<Rightarrow>
             and_then
               (emit [P (''for '' @ prepend this ''i'' @ '', '' @ prepend this ''value''
                         @ '' := range '' @ this @ '' {''), In])
               (and_then
                 (copyto_genField env elmType (prepend this ''value'')
                    (copyto_wrap that @ ''['' @ prepend this ''i'' @ '']''))
                 (emit [Out, P ''}'']))
         | Map keyType elmType \<Rightarrow>
             (let thiskey = prepend this ''key''; thisvalue = prepend this ''value'';
                  thatkey = (if \<not> canCopy keyType then prepend that ''key'' else thiskey)
              in and_then
                   (emit [P (''for '' @ thiskey @ '', '' @ thisvalue @ '' := range '' @ this
                             @ '' {''), In])
                   (and_then
                     (if \<not> canCopy keyType then copyto_genField env keyType thiskey thiskey
                      else emit [])
                     (and_then
                       (emit (if nullable elmType
                              then [P (''if '' @ thisvalue @ '' == nil {''), In,
                                    P (copyto_wrap that @ ''['' @ thatkey @ '']'' @ '' = nil''), Out,
                                    P ''}'']
                              else []))
                       (and_then
                         (copyto_genField env elmType thisvalue (copyto_wrap that @ ''['' @ thatkey @ '']''))
                         (emit [Out, P ''}''])))))
         | _ \<Rightarrow> fail (UnsupportedCopyToType typ)))"
| "copyto_genField env fieldType thisField thatField =
     (if canCopy fieldType then emit [P (thatField @ '' = '' @ thisField)]
      else
        (case Underlying fieldType of
           Pointer ref \<Rightarrow>
             emit ([P (''if '' @ thisField @ '' == nil {''), In,
                      P (thatField @ '' = nil''), Out,
                    P ''} else {'', In,
                      P (thatField @ '' = new('' @ tm_TypeString env ref @ '')''),
                      (if isNamed ref \<and> hasCopyToMethod ref
                       then P (copyto_wrap thisField @ ''.CopyTo('' @ thatField @ '')'')
                       else if canCopy ref
                       then P (''*'' @ thatField @ '' = *'' @ thisField)
                       else P (tm_GetFuncName env (Pointer ref) @ ''('' @ thisField @ '', ''
                               @ thatField @ '')'')),
                    Out, P ''}''])
         | Array n e \<Rightarrow> emit (fst (copyto_genStatement env fieldType thisField thatField))
         | Slice e \<Rightarrow>
             emit ([P (''if '' @ thisField @ '' == nil {''), In,
                      P (thatField @ '' = nil''), Out,
                    P ''} else {'', In]
                   @ slice_resize_lines env (Slice e) thisField thatField
                   @ [if canCopy e
                      then P (''copy('' @ thatField @ '', '' @ thisField @ '')'')
                      else P (tm_GetFuncName env (Slice e) @ ''('' @ thisField @ '', ''
                              @ thatField @ '')''),
                      Out, P ''}''])
         | Map k e \<Rightarrow>
             emit [P (''if '' @ thisField @ '' != nil {''), In,
                     P (thatField @ '' = make('' @ tm_TypeString env (Map k e) @ '', len(''
                        @ thisField @ ''))''),
                     P (tm_GetFuncName env (Map k e) @ ''('' @ thisField @ '', '' @ thatField
                        @ '')''), Out,
                   P ''} else {'', In,
                     P (thatField @ '' = nil''), Out,
                   P ''}'']
         | Struct fs \<Rightarrow>
             emit [P (''field := new('' @ tm_TypeString env fieldType @ '')''),
                   (if isNamed fieldType \<and> hasCopyToMethod fieldType
                    then P (copyto_wrap thisField @ ''.CopyTo(field)'')
                    else P (tm_GetFuncName env fieldType @ ''('' @ thisField @ '', ''
                            @ thatField @ '')'')),
                   P (thatField @ '' = *field'')]
         | _ \<Rightarrow> fail (UnsupportedFieldType fieldType)))"
  by pat_completeness auto
termination
  by (relation "measure (\<lambda>x. case x of
         Inl (env, typ, this, that) \<Rightarrow> 2 * size typ
       | Inr (env, typ, this, that) \<Rightarrow> 2 * size typ + 1)")
     (auto dest: size_Underlying_pointer size_Underlying_slice size_Underlying_array
                 size_Underlying_map intro: size_pointer_struct_field)

declare copyto_genStatement.simps [simp del] copyto_genField.simps [simp del]

text \<open>
  \<^verbatim>\<open>genFunc\<close>: the function header, the body and the closing brace. After an error in the
  body nothing more is printed.
\<close>

definition copyto_genFunc :: "genv \<Rightarrow> gotype \<Rightarrow> emitted" where
  "copyto_genFunc env typ =
     and_then
       (emit [P '''',
              P (''func '' @ tm_GetFuncName env typ @ ''(this, that '' @ tm_TypeString env typ
                 @ '') {''), In])
       (and_then (copyto_genStatement env typ ''this'' ''that'') (emit [Out, P ''}'']))"

text \<open>
  \<^verbatim>\<open>Add\<close>: the request is refused unless it has two arguments of identical types; otherwise
  the registry is asked to set the name for the type of the first argument, and its answer is
  the answer of \<^verbatim>\<open>Add\<close>.
\<close>

definition copyto_Add :: "genv \<Rightarrow> string \<Rightarrow> gotype list \<Rightarrow> gen_error + string" where
  "copyto_Add env name typs =
     (if length typs \<noteq> 2 then Inl (NotTwoArguments name)
      else if \<not> Identical (typs ! 0) (typs ! 1)
      then Inl (DifferentTypes name (typs ! 0) (typs ! 1))
      else tm_SetFuncName env name (typs ! 0))"

section \<open>The comparison generator (package compare)\<close>

fun hasCompareMethod_loop :: "method_sig list \<Rightarrow> bool" where
  "hasCompareMethod_loop [] = False"
| "hasCompareMethod_loop (m # ms) =
     (if meth_Name m \<noteq> ''Compare'' then hasCompareMethod_loop ms
      else if meth_Params m \<noteq> 1 then hasCompareMethod_loop ms
      else if length (meth_Results m) \<noteq> 1 then hasCompareMethod_loop ms
      else (case meth_Results m ! 0 of
              ResBasic k \<Rightarrow> if k \<noteq> KInt then hasCompareMethod_loop ms else True
            | ResOther \<Rightarrow> hasCompareMethod_loop ms))"

fun hasCompareMethod :: "gotype \<Rightarrow> bool" where
  "hasCompareMethod (Named pkg n ms u) = hasCompareMethod_loop ms"
| "hasCompareMethod t = False"

definition compare_wrap :: "string \<Rightarrow> string" where
  "compare_wrap v = (if HasPrefix v ''*'' \<or> HasPrefix v ''&'' then ''('' @ v @ '')'' else v)"

definition call2 :: "string \<Rightarrow> string \<Rightarrow> string \<Rightarrow> string" where
  "call2 f a b = f @ ''('' @ a @ '', '' @ b @ '')''"

text \<open>
  \<^verbatim>\<open>compare.field\<close>: the expression that compares two fields. For a named type without a
  \<^verbatim>\<open>Compare\<close> method it calls itself once more, on the pointer to the type.
\<close>

function compare_field :: "genv \<Rightarrow> string \<Rightarrow> string \<Rightarrow> gotype \<Rightarrow> gen_error + string" where
  "compare_field env thisField thatField fieldType =
     (case fieldType of
        Basic k \<Rightarrow>
          if k = KString then Inr (call2 (stringsPkg env @ ''.Compare'') thisField thatField)
          else Inr (call2 (tm_GetFuncName env fieldType) thisField thatField)
      | Pointer ref \<Rightarrow>
          if isNamed ref
          then (if hasCompareMethod ref
                then Inr (compare_wrap thisField @ ''.Compare('' @ thatField @ '')'')
                else Inr (call2 (tm_GetFuncName env fieldType) thisField thatField))
          else Inr (call2 (tm_GetFuncName env fieldType) thisField thatField)
      | Array n e \<Rightarrow> Inr (call2 (tm_GetFuncName env fieldType) thisField thatField)
      | Map k e \<Rightarrow> Inr (call2 (tm_GetFuncName env fieldType) thisField thatField)
      | Slice e \<Rightarrow>
          if e = Basic KUint8 then Inr (call2 (bytesPkg env @ ''.Compare'') thisField thatField)
          else Inr (call2 (tm_GetFuncName env fieldType) thisField thatField)
      | Named pkg n ms u \<Rightarrow>
          if hasCompareMethod fieldType
          then Inr (thisField @ ''.Compare(&'' @ thatField @ '')'')
          else compare_field env (''&'' @ thisField) (''&'' @ thatField) (Pointer fieldType)
      | _ \<Rightarrow> Inl (UnsupportedFieldType fieldType))"
  by pat_completeness auto
termination
  by (relation "measure (\<lambda>(env, a, b, t). if isNamed t then 1 else 0)") auto

declare compare_field.simps [simp del]

text \<open>The three statements that return the result of a field or element when it is not 0.\<close>

definition return_if_decided :: "string \<Rightarrow> pev list" where
  "return_if_decided cmpStr =
     [P (''if c := '' @ cmpStr @ ''; c != 0 {''), In, P ''return c'', Out, P ''}'']"

definition nil_checks :: "string \<Rightarrow> string \<Rightarrow> pev list" where
  "nil_checks this that =
     [P (''if '' @ this @ '' == nil {''), In,
        P (''if '' @ that @ '' == nil {''), In, P ''return 0'', Out, P ''}'',
        P ''return -1'', Out,
      P ''}'',
      P (''if '' @ that @ '' == nil {''), In, P ''return 1'', Out, P ''}'']"

definition len_checks :: "string \<Rightarrow> string \<Rightarrow> pev list" where
  "len_checks this that =
     [P (''if len('' @ this @ '') != len('' @ that @ '') {''), In,
        P (''if len('' @ this @ '') < len('' @ that @ '') {''), In, P ''return -1'', Out, P ''}'',
        P ''return 1'', Out,
      P ''}'']"

definition emit_field :: "gen_error + string \<Rightarrow> (string \<Rightarrow> pev list) \<Rightarrow> emitted" where
  "emit_field r k = (case r of Inl e \<Rightarrow> fail e | Inr s \<Rightarrow> emit (k s))"

definition compare_field_access :: "genv \<Rightarrow> field_info \<Rightarrow> string \<Rightarrow> string \<Rightarrow> string" where
  "compare_field_access env field recv recvv =
     (if \<not> fld_Private field then field_Name field recv None
      else field_Name field recvv (Some (unsafePkg env)))"

definition compare_genStatement :: "genv \<Rightarrow> gotype \<Rightarrow> string \<Rightarrow> string \<Rightarrow> emitted" where
  "compare_genStatement env typ this that =
     (case typ of
        Pointer reftyp \<Rightarrow>
          and_then (emit (nil_checks this that))
            (case reftyp of
               Named pkg n ms u \<Rightarrow>
                 (case u of
                    Struct strct \<Rightarrow>
                      and_then
                        (emit (if Reflect (derive_Fields env strct)
                               then [P (''thisv := '' @ reflectPkg env @ ''.Indirect(''
                                        @ reflectPkg env @ ''.ValueOf('' @ this @ ''))''),
                                     P (''thatv := '' @ reflectPkg env @ ''.Indirect(''
                                        @ reflectPkg env @ ''.ValueOf('' @ that @ ''))'')]
                               else []))
                        (and_then
                          (for_each
                             (\<lambda>field.
                                emit_field
                                  (compare_field env
                                     (compare_field_access env field this ''thisv'')
                                     (compare_field_access env field that ''thatv'')
                                     (fld_Type field))
                                  return_if_decided)
                             (Fields (derive_Fields env strct)))
                          (emit [P ''return 0'']))
                  | _ \<Rightarrow> fail (NotAStruct reftyp))
             | _ \<Rightarrow>
                 emit [P (''return '' @ tm_GetFuncName env reftyp @ ''(*'' @ this @ '', *''
                          @ that @ '')'')])
      | Basic k \<Rightarrow>
          if k = KString
          then emit [P (''return '' @ call2 (stringsPkg env @ ''.Compare'') this that)]
          else if k = KComplex128 \<or> k = KComplex64
          then emit
            [P (''if thisr, thatr := real('' @ this @ ''), real('' @ that
                @ ''); thisr == thatr {''), In,
               P (''if thisi, thati := imag('' @ this @ ''), imag('' @ that
                  @ ''); thisi == thati {''), In, P ''return 0'', Out,
               P ''} else if thisi < thati {'', In, P ''return -1'', Out,
               P ''} else {'', In, P ''return 1'', Out,
               P ''}'', Out,
             P ''} else if thisr < thatr {'', In, P ''return -1'', Out,
             P ''} else {'', In, P ''return 1'', Out,
             P ''}'']
          else if k = KBool
          then emit
            [P (''if '' @ this @ '' == '' @ that @ '' {''), In, P ''return 0'', Out, P ''}'',
             P (''if '' @ that @ '' {''), In, P ''return -1'', Out, P ''}'',
             P ''return 1'']
          else emit
            [P (''if '' @ this @ '' != '' @ that @ '' {''), In,
               P (''if '' @ this @ '' < '' @ that @ '' {''), In, P ''return -1'', Out,
               P ''} else {'', In, P ''return 1'', Out,
               P ''}'', Out,
             P ''}'',
             P ''return 0'']
      | Named pkg n ms u \<Rightarrow>
          emit_field (compare_field env (''&'' @ this) (''&'' @ that) (Pointer typ))
            (\<lambda>fieldStr. [P (''return '' @ fieldStr)])
      | Slice e \<Rightarrow>
          and_then
            (emit (nil_checks this that @ len_checks this that
                   @ [P (''for i := 0; i < len('' @ this @ ''); i++ {''), In]))
            (and_then
              (emit_field (compare_field env (this @ ''[i]'') (that @ ''[i]'') e)
                 return_if_decided)
              (emit [Out, P ''}'', P ''return 0'']))
      | Array n e \<Rightarrow>
          and_then
            (emit (len_checks this that
                   @ [P (''for i := 0; i < len('' @ this @ ''); i++ {''), In]))
            (and_then
              (emit_field (compare_field env (this @ ''[i]'') (that @ ''[i]'') e)
                 return_if_decided)
              (emit [Out, P ''}'', P ''return 0'']))
      | Map key e \<Rightarrow>
          and_then
            (emit (nil_checks this that @ len_checks this that
                   @ [P (''thiskeys := '' @ sort_GetFuncName env (Slice key) @ ''(''
                         @ keys_GetFuncName env typ @ ''('' @ this @ ''))''),
                      P (''thatkeys := '' @ sort_GetFuncName env (Slice key) @ ''(''
                         @ keys_GetFuncName env typ @ ''('' @ that @ ''))''),
                      P ''for i, thiskey := range thiskeys {'', In,
                        P ''thatkey := thatkeys[i]'',
                        P ''if thiskey == thatkey {'', In,
                          P ''thisvalue := this[thiskey]'',
                          P ''thatvalue := that[thatkey]'']))
            (and_then
              (emit_field (compare_field env ''thisvalue'' ''thatvalue'' e) return_if_decided)
              (and_then
                (emit [Out, P ''} else {'', In])
                (and_then
                  (emit_field (compare_field env ''thiskey'' ''thatkey'' key) return_if_decided)
                  (emit [Out, P ''}'', Out, P ''}'', P ''return 0'']))))
      | _ \<Rightarrow> fail (UnsupportedCompareType typ))"

definition compare_genFunc :: "genv \<Rightarrow> gotype \<Rightarrow> emitted" where
  "compare_genFunc env typ =
     and_then
       (emit [P '''',
              P (''func '' @ tm_GetFuncName env typ @ ''(this, that '' @ tm_TypeString env typ
                 @ '') int {''), In])
       (and_then (compare_genStatement env typ ''this'' ''that'') (emit [Out, P ''}'']))"

definition compare_Add :: "genv \<Rightarrow> string \<Rightarrow> gotype list \<Rightarrow> gen_error + string" where
  "compare_Add env name typs =
     (if length typs \<noteq> 2 then Inl (NotTwoArguments name)
      else if \<not> Identical (typs ! 0) (typs ! 1)
      then Inl (DifferentTypes name (typs ! 0) (typs ! 1))
      else tm_SetFuncName env name (typs ! 0))"

section \<open>The equality generator (package main, generateEqual)\<close>

definition eqFuncPrefix :: string where
  "eqFuncPrefix = ''deriveEqual''"

text \<open>
  Modelled from the spec: \<^verbatim>\<open>newTypesMap\<close> and its \<^verbatim>\<open>Get\<close>, \<^verbatim>\<open>Set\<close> and \<^verbatim>\<open>List\<close> are not
  among the sources. The registry remembers, for every type that was added, whether its
  function is still pending or has been emitted; a type is never removed.
\<close>

type_synonym typesMap = "(gotype \<times> bool) list"

definition tm_Get :: "typesMap \<Rightarrow> gotype \<Rightarrow> bool" where
  "tm_Get m t = (case map_of m t of None \<Rightarrow> False | Some b \<Rightarrow> b)"

definition tm_Set :: "typesMap \<Rightarrow> gotype \<Rightarrow> bool \<Rightarrow> typesMap" where
  "tm_Set m t b =
     (if t \<in> fst ` set m then map (\<lambda>kv. if fst kv = t then (t, b) else kv) m
      else m @ [(t, b)])"

definition tm_List :: "typesMap \<Rightarrow> gotype list" where
  "tm_List m = map fst m"

text \<open>The step \<^verbatim>\<open>if !m.Get(typ) { m.Set(typ, false) }\<close>.\<close>

definition tm_pending :: "typesMap \<Rightarrow> gotype \<Rightarrow> typesMap" where
  "tm_pending m t = (if \<not> tm_Get m t then tm_Set m t False else m)"

record equal =
  eq_qual :: "string \<Rightarrow> string"
  eq_bytesPkg :: string
  eq_prefix :: string

definition funcName :: "equal \<Rightarrow> gotype \<Rightarrow> string" where
  "funcName this typ = eqFuncPrefix @ typeName typ (eq_qual this)"

text \<open>\<^verbatim>\<open>not\<close> reads the first byte of its argument and panics on the empty string.\<close>

definition equal_not :: "string \<Rightarrow> gen_error + string" where
  "equal_not s =
     (case s of
        [] \<Rightarrow> Inl IndexOutOfRange
      | c # cs \<Rightarrow> if c = CHR ''('' then Inr (''!'' @ s) else Inr (''!('' @ s @ '')''))"

function isComparable :: "gotype \<Rightarrow> bool" where
  "isComparable tt =
     (case Underlying tt of
        Basic k \<Rightarrow> k \<noteq> UntypedNil
      | Struct fs \<Rightarrow> list_all (\<lambda>f. isComparable (snd f)) fs
      | Array n e \<Rightarrow> isComparable e
      | _ \<Rightarrow> False)"
  by pat_completeness auto
termination
  by (relation "measure size")
     (auto dest: size_Underlying_struct size_Underlying_array)

declare isComparable.simps [simp del]

text \<open>
  \<^verbatim>\<open>equal.field\<close>: the expression that tells whether two fields are equal, and the registry
  after the types it calls a function for have been added.
\<close>

fun equal_field ::
  "equal \<Rightarrow> typesMap \<Rightarrow> string \<Rightarrow> string \<Rightarrow> gotype \<Rightarrow> (gen_error + string) \<times> typesMap" where
  "equal_field this m thisField thatField (Pointer ref) =
     (if isComparable (Pointer ref) then (Inr (thisField @ '' == '' @ thatField), m)
      else if isNamed ref then (Inr (thisField @ ''.Equal('' @ thatField @ '')''), m)
      else (case equal_field this m (''*'' @ thisField) (''*'' @ thatField) ref of
              (Inl e, m') \<Rightarrow> (Inl e, m')
            | (Inr eqStr, m') \<Rightarrow>
                (Inr (''(('' @ thisField @ '' == nil && '' @ thatField @ '' == nil) || (''
                      @ thisField @ '' != nil && '' @ thatField @ '' != nil && '' @ eqStr
                      @ ''))''), m')))"
| "equal_field this m thisField thatField fieldType =
     (if isComparable fieldType then (Inr (thisField @ '' == '' @ thatField), m)
      else
        (case fieldType of
           Array n e \<Rightarrow>
             (Inr (call2 (funcName this fieldType) thisField thatField), tm_pending m fieldType)
         | Slice e \<Rightarrow>
             if e = Basic KUint8
             then (Inr (call2 (eq_bytesPkg this @ ''.Equal'') thisField thatField), m)
             else (Inr (call2 (funcName this fieldType) thisField thatField),
                   tm_pending m fieldType)
         | Map k e \<Rightarrow>
             (Inr (call2 (funcName this fieldType) thisField thatField), tm_pending m fieldType)
         | Named pkg n ms u \<Rightarrow> (Inr (thisField @ ''.Equal(&'' @ thatField @ '')''), m)
         | _ \<Rightarrow> (Inl (UnsupportedType fieldType), m)))"

text \<open>
  The loop of \<^verbatim>\<open>genFuncFor\<close> that compares the elements of a slice or an array, or the
  values of a map.
\<close>

definition equal_element_check ::
  "equal \<Rightarrow> typesMap \<Rightarrow> string \<Rightarrow> string \<Rightarrow> gotype \<Rightarrow> emitted \<times> typesMap" where
  "equal_element_check this m a b e =
     (case equal_field this m a b e of
        (Inl err, m') \<Rightarrow> (fail err, m')
      | (Inr eqStr, m') \<Rightarrow>
          (case equal_not eqStr of
             Inl err \<Rightarrow> (fail err, m')
           | Inr neg \<Rightarrow>
               (emit [P (''if '' @ neg @ '' {''), In, P ''return false'', Out, P ''}'',
                      Out, P ''}'', P ''return true''], m')))"

text \<open>
  The fields of a struct behind a pointer: one line for each field, all but the last ending
  in \<^verbatim>\<open>&&\<close>.
\<close>

fun equal_struct_fields ::
  "equal \<Rightarrow> typesMap \<Rightarrow> (string \<times> gotype) list \<Rightarrow> emitted \<times> typesMap" where
  "equal_struct_fields this m [] = (emit [], m)"
| "equal_struct_fields this m (f # fs) =
     (case equal_field this m (''this.'' @ fst f) (''that.'' @ fst f) (snd f) of
        (Inl err, m') \<Rightarrow> (fail err, m')
      | (Inr fieldStr, m') \<Rightarrow>
          (case equal_struct_fields this m' fs of
             (rest, m'') \<Rightarrow>
               (and_then (emit [P (if fs \<noteq> [] then fieldStr @ '' &&'' else fieldStr)]) rest,
                m'')))"

definition genFuncFor :: "equal \<Rightarrow> typesMap \<Rightarrow> gotype \<Rightarrow> emitted \<times> typesMap" where
  "genFuncFor this m0 typ =
     (let m = tm_Set m0 typ True;
          header = emit [P '''',
                         P (''func '' @ funcName this typ @ ''(this, that ''
                            @ TypeString typ (eq_qual this) @ '') bool {''), In];
          footer = emit [Out, P ''}''];
          nil_or_len = [P ''if this == nil || that == nil {'', In,
                          P ''return this == nil && that == nil'', Out,
                        P ''}'',
                        P ''if len(this) != len(that) {'', In, P ''return false'', Out,
                        P ''}''];
          via_function = (\<lambda>tttyp.
            (and_then header
               (and_then
                 (emit [P (''return (this == nil && that == nil) || (this != nil) && (that != nil) && ''
                           @ call2 (funcName this tttyp) ''*this'' ''*that'')])
                 footer),
             tm_pending m tttyp))
      in case typ of
           Pointer ref \<Rightarrow>
             (case Underlying ref of
                Basic k \<Rightarrow>
                  (case equal_field this m ''this'' ''that'' typ of
                     (Inl err, m') \<Rightarrow> (and_then header (fail err), m')
                   | (Inr fieldStr, m') \<Rightarrow>
                       (and_then header
                          (and_then (emit [P (''return '' @ fieldStr)]) footer), m'))
              | Struct fs \<Rightarrow>
                  (case equal_struct_fields this m fs of
                     (body, m') \<Rightarrow>
                       (and_then header
                          (and_then
                            (emit [P (if length fs = 0
                                      then ''return (this == nil && that == nil) || (this != nil) && (that != nil)''
                                      else ''return (this == nil && that == nil) || (this != nil) && (that != nil) &&''),
                                   In])
                            (and_then body (and_then (emit [Out]) footer))), m'))
              | Slice e \<Rightarrow> via_function (Underlying ref)
              | Array n e \<Rightarrow> via_function (Underlying ref)
              | Map k e \<Rightarrow> via_function (Underlying ref)
              | _ \<Rightarrow> (and_then header (fail (UnsupportedPointer ref)), m))
         | Slice e \<Rightarrow>
             (case equal_element_check this m ''this[i]'' ''that[i]'' e of
                (body, m') \<Rightarrow>
                  (and_then header
                     (and_then
                       (emit (nil_or_len @ [P ''for i := 0; i < len(this); i++ {'', In]))
                       (and_then body footer)), m'))
         | Array n e \<Rightarrow>
             (case equal_element_check this m ''this[i]'' ''that[i]'' e of
                (body, m') \<Rightarrow>
                  (and_then header
                     (and_then (emit [P ''for i := 0; i < len(this); i++ {'', In])
                        (and_then body footer)), m'))
         | Map k e \<Rightarrow>
             (case equal_element_check this m ''v'' ''thatv'' e of
                (body, m') \<Rightarrow>
                  (and_then header
                     (and_then
                       (emit (nil_or_len
                              @ [P ''for k, v := range this {'', In,
                                   P ''thatv, ok := that[k]'',
                                   P ''if !ok {'', In, P ''return false'', Out, P ''}'']))
                       (and_then body footer)), m'))
         | _ \<Rightarrow> (and_then header (fail (UnsupportedType typ)), m))"

section \<open>The generated functions, read as functions on Go values\<close>

text \<open>
  The generators print Go statements. What the printed function computes is written here as a
  HOL function, statement by statement, for the three shapes the claims are about. A result
  \<^verbatim>\<open>None\<close> is a run-time panic of the generated function (an index out of range).
\<close>

subsection \<open>Comparison of two slices\<close>






subsection \<open>Comparison of two maps\<close>







subsection \<open>Deep copy of a slice\<close>










section \<open>The bulk-comparable types, in the words of the specification\<close>

text \<open>
  The closure that the specification describes: basic types, aggregates whose every field is
  in the closure, and fixed arrays of elements in the closure; a named type belongs to it
  through its underlying type. The basic kinds that start the closure are a parameter.
\<close>

inductive bulk_closure :: "(basic_kind \<Rightarrow> bool) \<Rightarrow> gotype \<Rightarrow> bool"
  for admitted :: "basic_kind \<Rightarrow> bool" where
  bulk_Basic: "admitted k \<Longrightarrow> bulk_closure admitted (Basic k)"
| bulk_Struct:
    "(\<forall>f \<in> set fs. bulk_closure admitted (snd f)) \<Longrightarrow> bulk_closure admitted (Struct fs)"
| bulk_Array: "bulk_closure admitted e \<Longrightarrow> bulk_closure admitted (Array n e)"
| bulk_Named:
    "bulk_closure admitted u \<Longrightarrow> \<not> isNamed u \<Longrightarrow> bulk_closure admitted (Named pkg n ms u)"

code_pred bulk_closure .

definition any_basic :: "basic_kind \<Rightarrow> bool" where
  "any_basic k = True"

section \<open>Concrete inputs\<close>

text \<open>
  A package environment with a builtin, a conversion to a predeclared type (no position in
  the file set), a function defined in the derived file and a function of the user.
\<close>

definition demo_env :: pkgenv where
  "demo_env =
     \<lparr>Uses = [Ident 10 ''len'' \<mapsto> Builtin ''len'',
              Ident 20 ''float64'' \<mapsto> Object ''float64'' 0,
              Ident 30 ''deriveEqual'' \<mapsto> Object ''deriveEqual'' 7,
              Ident 40 ''helper'' \<mapsto> Object ''helper'' 8],
      Fset_File = [7 \<mapsto> ''/go/src/p/derived.gen.go'', 8 \<mapsto> ''/go/src/p/p.go''],
      TypeOf = (\<lambda>e. None)\<rparr>"

definition demo_cfg :: config where
  "demo_cfg =
     \<lparr>generators = [\<lparr>gen_Name = ''equal'', gen_Prefix = ''deriveEqual''\<rparr>],
      plugin_Add = (\<lambda>g n args. Inr n), autoname = False, dedup = False\<rparr>"

definition demo_call :: "nat \<Rightarrow> string \<Rightarrow> gotype option list \<Rightarrow> Call" where
  "demo_call p n args =
     \<lparr>Expr = CallExpr (Ident p n) (map (\<lambda>a. Lit ''x'') args), Name = n, Args = args\<rparr>"

definition demo_pass :: "Call list \<Rightarrow> pass_input" where
  "demo_pass cs =
     \<lparr>load_error = None,
      files = [\<lparr>fullpath = Some ''/go/src/p/p.go'', calls = cs, rewrite_error = None\<rparr>],
      generate_error = None, HasContent = True, write_error = None\<rparr>"

definition two_unresolved :: "Call list" where
  "two_unresolved =
     [demo_call 1 ''deriveEqual'' [None, None], demo_call 2 ''f'' [Some (Basic KInt)]]"

definition three_unresolved :: "Call list" where
  "three_unresolved = two_unresolved @ [demo_call 3 ''g'' []]"

text \<open>The loop of a package goes round again when a pass ends with a count other than zero.\<close>

definition loops_again :: "fatal + int \<Rightarrow> bool" where
  "loops_again r = (case r of Inl f \<Rightarrow> False | Inr n \<Rightarrow> n \<noteq> 0)"

text \<open>
  A generator environment for package \<^verbatim>\<open>p\<close>, in which the field \<^verbatim>\<open>b\<close> cannot be reached,
  and a struct of another package with an exported field \<^verbatim>\<open>A\<close> and the field \<^verbatim>\<open>b\<close>.
\<close>

definition demo_genv :: genv where
  "demo_genv =
     \<lparr>tm_TypeString = (\<lambda>t. TypeString t (RelativeTo ''p'')),
      tm_GetFuncName = (\<lambda>t. ''derive'' @ typeName t (RelativeTo ''p'')),
      tm_SetFuncName = (\<lambda>name t. Inr name),
      keys_GetFuncName = (\<lambda>t. ''deriveKeys'' @ typeName t (RelativeTo ''p'')),
      sort_GetFuncName = (\<lambda>t. ''deriveSort'' @ typeName t (RelativeTo ''p'')),
      bytesPkg = ''bytes'', stringsPkg = ''strings'', reflectPkg = ''reflect'',
      unsafePkg = ''unsafe'',
      inaccessible = (\<lambda>n. n = ''b'')\<rparr>"

definition demo_equal :: equal where
  "demo_equal = \<lparr>eq_qual = RelativeTo ''p'', eq_bytesPkg = ''bytes'', eq_prefix = eqFuncPrefix\<rparr>"

definition demo_fields :: "(string \<times> gotype) list" where
  "demo_fields = [(''A'', Basic KInt64), (''b'', Basic KString)]"

definition demo_struct :: gotype where
  "demo_struct = Named ''q'' ''T'' [] (Struct demo_fields)"













section \<open>The driver loop: convergence\<close>

lemmas demo_driver_simps =
  demo_cfg_def demo_pass_def three_unresolved_def two_unresolved_def demo_call_def
  filepath_Split_def derivedFilename_def HasUndefined_def HasPrefix_def

text \<open>
  C1, as stated, fails. The first pass of a package, before which the count is -1, ends
  with two unresolved calls: the driver loops again although two is not smaller than -1, and
  it has written the derived file in that pass although the count is not zero. After a pass
  that followed one with two unresolved calls and that itself ends with three, the driver
  neither aborts nor stops: it loops again although three is not smaller than two. The run
  with passes of two, three and then no unresolved calls ends successfully.
\<close>

theorem driver_strictly_smaller_counterexample:
  "snd (one_pass demo_cfg (- 1) (demo_pass two_unresolved)) = Inr 2
   \<and> loops_again (snd (one_pass demo_cfg (- 1) (demo_pass two_unresolved)))
   \<and> \<not> ((2::int) < - 1)
   \<and> WroteDerived \<in> set (fst (one_pass demo_cfg (- 1) (demo_pass two_unresolved)))
   \<and> snd (one_pass demo_cfg 2 (demo_pass three_unresolved)) = Inr 3
   \<and> loops_again (snd (one_pass demo_cfg 2 (demo_pass three_unresolved)))
   \<and> \<not> ((3::int) < 2)
   \<and> WroteDerived \<in> set (fst (one_pass demo_cfg 2 (demo_pass three_unresolved)))
   \<and> snd (run_package demo_cfg
            [demo_pass two_unresolved, demo_pass three_unresolved, demo_pass []])
       = Some ExitOK"
  by (simp add: demo_driver_simps one_pass_def loops_again_def run_package_def)

text \<open>
  C1, amended: in a pass in which nothing else is fatal (the reload, every \<^verbatim>\<open>Add\<close>, the
  rewriting of sources, the generation and the writing of the derived file succeed), the
  driver aborts with the convergence error exactly when the list of unresolved calls is not
  empty and as long as after the previous pass; it ends the package successfully exactly when
  the list is empty; in every other case, that is when the count is not zero and differs from
  the previous one (smaller or larger, and always after the first pass, whose previous count
  is -1), it runs the next pass. The derived file is written at the end of every pass that is
  not aborted and has content, not only in the last one.
\<close>

theorem driver_pass_outcome:
  assumes "prev \<noteq> 0"
    and "prev \<le> 0 \<or> load_error inp = None"
    and "scan_files cfg (files inp) ([], if 0 < prev then [Reloaded] else []) = Inr (ng, log)"
    and "generate_error inp = None"
    and "\<not> HasContent inp \<or> write_error inp = None"
  shows "package_loop cfg prev (inp # rest) =
     (if ng \<noteq> [] \<and> prev = int (length ng)
      then (log, Some (Aborted (CannotGenerate (hd ng))))
      else if ng = []
      then (log @ (if HasContent inp then [WroteDerived] else []), Some ExitOK)
      else (case package_loop cfg (int (length ng)) rest of
              (log', r) \<Rightarrow>
                (log @ map CouldNotYet ng @ (if HasContent inp then [WroteDerived] else [])
                   @ log', r)))"
  using assms
  by (cases rest) (auto simp: one_pass_def Let_def split: prod.splits)

theorem driver_pass_outcome_witness:
  "package_loop demo_cfg 2 [demo_pass two_unresolved] =
     ([Reloaded],
      Some (Aborted (CannotGenerate (CallExpr (Ident 1 ''deriveEqual'') [Lit ''x'', Lit ''x'']))))
 \<and> package_loop demo_cfg 3 [demo_pass two_unresolved] =
     ([Reloaded, CouldNotYet (CallExpr (Ident 1 ''deriveEqual'') [Lit ''x'', Lit ''x'']),
       CouldNotYet (CallExpr (Ident 2 ''f'') [Lit ''x'']), WroteDerived], None)
 \<and> package_loop demo_cfg (- 1) [demo_pass []] = ([WroteDerived], Some ExitOK)"
  using driver_pass_outcome [of 2 "demo_pass two_unresolved" demo_cfg
          "[CallExpr (Ident 1 ''deriveEqual'') [Lit ''x'', Lit ''x''],
            CallExpr (Ident 2 ''f'') [Lit ''x'']]"
          "[Reloaded]" "[]"]
        driver_pass_outcome [of 3 "demo_pass two_unresolved" demo_cfg
          "[CallExpr (Ident 1 ''deriveEqual'') [Lit ''x'', Lit ''x''],
            CallExpr (Ident 2 ''f'') [Lit ''x'']]"
          "[Reloaded]" "[]"]
        driver_pass_outcome [of "- 1" "demo_pass []" demo_cfg "[]" "[]" "[]"]
  by (simp add: demo_driver_simps)

section \<open>The call-site finder: classification\<close>

text \<open>
  C3, as stated, fails: the callee of \<^verbatim>\<open>len(x)\<close> resolves to a symbol, the symbol is not
  defined in the derived file, and still the name is not recorded among the user's function
  names (and the call is neither undefined nor derived).
\<close>

theorem finder_builtin_counterexample:
  "Uses demo_env (Ident 10 ''len'') = Some (Builtin ''len'')
   \<and> ''len'' \<notin> f_funcNames (Visit demo_env new_finder (CallExpr (Ident 10 ''len'') [Lit ''x'']))
   \<and> Visit demo_env new_finder (CallExpr (Ident 10 ''len'') [Lit ''x'']) = new_finder"
  by (simp add: demo_env_def new_finder_def)

text \<open>
  C3, amended: for a call whose callee is a plain identifier, the visitor appends the call to
  the undefined calls, and does nothing else, if the identifier resolves to nothing; if it
  resolves to a symbol that is not a builtin and whose position lies in a file of the file
  set, the visitor appends the call to the derived calls when that file is named
  \<^verbatim>\<open>derived.gen.go\<close> and otherwise records the callee's name among the user's function names;
  a callee that resolves to a builtin, or to a symbol with no file, leaves the finder as it
  was. Each case changes one component of the finder only, so the outcomes exclude each
  other.
\<close>

theorem finder_classification:
  fixes env this p n args
  defines "call \<equiv> CallExpr (Ident p n) args"
  shows "(Uses env (Ident p n) = None \<longrightarrow>
            Visit env this call = this\<lparr>f_undefined := f_undefined this @ [call]\<rparr>)
       \<and> (\<forall>nm d path.
            Uses env (Ident p n) = Some (Object nm d) \<and> Fset_File env d = Some path \<longrightarrow>
            Visit env this call =
              (if snd (filepath_Split path) = derivedFilename
               then this\<lparr>f_derived := f_derived this @ [call]\<rparr>
               else this\<lparr>f_funcNames := insert n (f_funcNames this)\<rparr>))
       \<and> ((\<exists>b. Uses env (Ident p n) = Some (Builtin b))
            \<or> (\<exists>nm d. Uses env (Ident p n) = Some (Object nm d) \<and> Fset_File env d = None) \<longrightarrow>
            Visit env this call = this)"
  unfolding call_def by auto

theorem finder_classification_witness:
  "Visit demo_env new_finder (CallExpr (Ident 50 ''deriveCompare'') []) =
     new_finder\<lparr>f_undefined := [CallExpr (Ident 50 ''deriveCompare'') []]\<rparr>
 \<and> Visit demo_env new_finder (CallExpr (Ident 30 ''deriveEqual'') []) =
     new_finder\<lparr>f_derived := [CallExpr (Ident 30 ''deriveEqual'') []]\<rparr>
 \<and> Visit demo_env new_finder (CallExpr (Ident 40 ''helper'') []) =
     new_finder\<lparr>f_funcNames := {''helper''}\<rparr>
 \<and> Visit demo_env new_finder (CallExpr (Ident 20 ''float64'') []) = new_finder"
  using finder_classification [of demo_env 50 "''deriveCompare''" new_finder "[]"]
        finder_classification [of demo_env 30 "''deriveEqual''" new_finder "[]"]
        finder_classification [of demo_env 40 "''helper''" new_finder "[]"]
        finder_classification [of demo_env 20 "''float64''" new_finder "[]"]
  by (simp add: demo_env_def new_finder_def filepath_Split_def derivedFilename_def)

text \<open>
  C10: a call whose callee is not a plain identifier, or resolves to a builtin, or resolves to
  a symbol whose position belongs to no file of the file set (a conversion such as
  \<^verbatim>\<open>float64(x)\<close>), is appended neither to the undefined nor to the derived calls, the only
  two lists from which derivation requests are made.
\<close>

theorem finder_never_a_request:
  assumes "(\<forall>p n. fn \<noteq> Ident p n)
         \<or> (\<exists>b. Uses env fn = Some (Builtin b))
         \<or> (\<exists>nm d. Uses env fn = Some (Object nm d) \<and> Fset_File env d = None)"
  shows "f_undefined (Visit env this (CallExpr fn args)) = f_undefined this
       \<and> f_derived (Visit env this (CallExpr fn args)) = f_derived this"
  using assms by (cases fn) auto

theorem finder_never_a_request_witness:
  "f_undefined (Visit demo_env new_finder
      (CallExpr (SelectorExpr (Ident 5 ''strings'') ''Join'') [Lit ''x''])) = []
 \<and> f_derived (Visit demo_env new_finder
      (CallExpr (SelectorExpr (Ident 5 ''strings'') ''Join'') [Lit ''x''])) = []
 \<and> f_undefined (Visit demo_env new_finder (CallExpr (Ident 10 ''len'') [Lit ''x''])) = []
 \<and> f_derived (Visit demo_env new_finder (CallExpr (Ident 10 ''len'') [Lit ''x''])) = []
 \<and> f_undefined (Visit demo_env new_finder (CallExpr (Ident 20 ''float64'') [Lit ''x''])) = []
 \<and> f_derived (Visit demo_env new_finder (CallExpr (Ident 20 ''float64'') [Lit ''x''])) = []"
  using finder_never_a_request [of "SelectorExpr (Ident 5 ''strings'') ''Join''" demo_env
          new_finder "[Lit ''x'']"]
        finder_never_a_request [of "Ident 10 ''len''" demo_env new_finder "[Lit ''x'']"]
        finder_never_a_request [of "Ident 20 ''float64''" demo_env new_finder "[Lit ''x'']"]
  by (simp add: demo_env_def new_finder_def)

section \<open>The canonical type label\<close>















section \<open>The generators: what they accept and what they print\<close>

lemma canCopy_Basic [simp]: "canCopy (Basic k) = (k \<noteq> UntypedNil)"
  by (simp add: canCopy.simps [of "Basic k"])
lemma canCopy_Struct [simp]: "canCopy (Struct fs) = (\<forall>f \<in> set fs. canCopy (snd f))"
  by (simp add: canCopy.simps [of "Struct fs"] list_all_iff)
lemma canCopy_Array [simp]: "canCopy (Array n e) = canCopy e"
  by (simp add: canCopy.simps [of "Array n e"])
lemma canCopy_others [simp]:
  "canCopy (Pointer e) = False" "canCopy (Slice e) = False" "canCopy (Map k e) = False"
  "canCopy (Chan e) = False" "canCopy (Signature ps rs) = False" "canCopy Interface = False"
  by (simp_all add: canCopy.simps [of "Pointer e"] canCopy.simps [of "Slice e"]
      canCopy.simps [of "Map k e"] canCopy.simps [of "Chan e"]
      canCopy.simps [of "Signature ps rs"] canCopy.simps [of Interface])

lemma canCopy_Named [simp]: "canCopy (Named pkg n ms u) = (\<not> isNamed u \<and> canCopy u)"
  by (subst canCopy.simps) (cases u; simp add: list_all_iff)

lemma isComparable_canCopy: "isComparable t = canCopy t"
proof (induction t rule: canCopy.induct)
  case (1 tt)
  show ?case
  proof (cases "Underlying tt")
    case (Struct fs)
    with 1 have "\<forall>f \<in> set fs. isComparable (snd f) = canCopy (snd f)" by auto
    with Struct show ?thesis
      by (simp add: canCopy.simps [of tt] isComparable.simps [of tt] list_all_iff)
  next
    case (Array n e)
    with 1 have "isComparable e = canCopy e" by auto
    with Array show ?thesis by (simp add: canCopy.simps [of tt] isComparable.simps [of tt])
  qed (simp_all add: canCopy.simps [of tt] isComparable.simps [of tt])
qed

lemma bulk_closure_canCopy:
  "bulk_closure (\<lambda>k. k \<noteq> UntypedNil) t \<Longrightarrow> canCopy t"
  by (induction rule: bulk_closure.induct) auto

lemma canCopy_bulk_closure:
  "canCopy t \<Longrightarrow> bulk_closure (\<lambda>k. k \<noteq> UntypedNil) t"
proof (induction t rule: canCopy.induct)
  case (1 tt)
  have under: "bulk_closure (\<lambda>k. k \<noteq> UntypedNil) (Underlying tt)"
  proof (cases "Underlying tt")
    case (Basic k)
    with 1 show ?thesis by (auto simp: canCopy.simps [of tt] intro: bulk_closure.intros)
  next
    case (Struct fs)
    with "1.prems" have "\<forall>f \<in> set fs. canCopy (snd f)"
      by (simp add: canCopy.simps [of tt] list_all_iff)
    with Struct "1.IH" have "\<forall>f \<in> set fs. bulk_closure (\<lambda>k. k \<noteq> UntypedNil) (snd f)"
      by blast
    with Struct show ?thesis by (auto intro: bulk_closure.intros)
  next
    case (Array n e)
    with "1.prems" have "canCopy e" by (simp add: canCopy.simps [of tt])
    with Array "1.IH" have "bulk_closure (\<lambda>k. k \<noteq> UntypedNil) e" by blast
    with Array show ?thesis by (auto intro: bulk_closure.intros)
  qed (use "1.prems" in \<open>simp_all add: canCopy.simps [of tt]\<close>)
  show ?case
  proof (cases tt)
    case (Named pkg n ms u)
    with under "1.prems" show ?thesis by (auto intro: bulk_closure.intros)
  qed (use under in simp_all)
qed

lemmas demo_gen_simps =
  demo_genv_def demo_struct_def demo_fields_def derive_Fields_def new_field_def field_access_def
  compare_field_access_def field_Name_def ordinary_access_def fallback_access_def
  emit_def and_then_def fail_def emit_field_def call2_def prepend_def reflect_preamble_def
  return_if_decided_def nil_checks_def len_checks_def RelativeTo_def

text \<open>
  C7, as stated, fails in both halves. The type of an untyped \<^verbatim>\<open>nil\<close> is a basic type, so it
  is in the closure as the claim describes it, but neither predicate holds for it. And for a
  slice of \<^verbatim>\<open>int\<close>, whose element type is bulk-comparable, the equality generator prints a
  loop over the elements, as the comparison generator does for an array of \<^verbatim>\<open>int\<close>.
\<close>

theorem bulk_comparison_counterexample:
  "bulk_closure any_basic (Basic UntypedNil)
   \<and> \<not> canCopy (Basic UntypedNil)
   \<and> \<not> isComparable (Basic UntypedNil)
   \<and> isComparable (Basic KInt)
   \<and> P ''for i := 0; i < len(this); i++ {''
       \<in> set (fst (fst (genFuncFor demo_equal [] (Slice (Basic KInt)))))
   \<and> P ''for i := 0; i < len(this); i++ {''
       \<in> set (fst (compare_genStatement demo_genv (Array 3 (Basic KInt)) ''this'' ''that''))"
  by (simp add: bulk_closure.intros any_basic_def isComparable_canCopy genFuncFor_def Let_def
      equal_element_check_def equal_not_def emit_def and_then_def demo_equal_def
      compare_genStatement_def compare_field.simps emit_field_def return_if_decided_def
      len_checks_def call2_def demo_genv_def)

text \<open>
  C7, amended: \<^verbatim>\<open>canCopy\<close> and \<^verbatim>\<open>isComparable\<close> hold exactly for the closure over the basic
  types other than the untyped \<^verbatim>\<open>nil\<close>, the aggregates whose every field is in the closure
  and the fixed arrays of elements in the closure. When the element type of a fixed array is
  in the closure, the deep copy of the array is one assignment and its equality as a field is
  one \<^verbatim>\<open>==\<close>; when the element type of a sequence is in the closure, the deep copy of its
  elements is one call of the built-in \<^verbatim>\<open>copy\<close>.
\<close>

theorem bulk_predicate_and_bulk_copy:
  "canCopy t = bulk_closure (\<lambda>k. k \<noteq> UntypedNil) t
   \<and> isComparable t = bulk_closure (\<lambda>k. k \<noteq> UntypedNil) t
   \<and> (canCopy e \<longrightarrow>
        copyto_genStatement env (Array n e) this that = emit [P (that @ '' = '' @ this)]
      \<and> copyto_genField env (Array n e) this that = emit [P (that @ '' = '' @ this)]
      \<and> copyto_genStatement env (Slice e) this that
          = emit [P (''copy('' @ that @ '', '' @ this @ '')'')]
      \<and> fst (equal_field eq m this that (Array n e)) = Inr (this @ '' == '' @ that))"
  using bulk_closure_canCopy [of t] canCopy_bulk_closure [of t]
  by (auto simp: isComparable_canCopy copyto_genStatement.simps copyto_genField.simps)

theorem bulk_predicate_and_bulk_copy_witness:
  "bulk_closure (\<lambda>k. k \<noteq> UntypedNil) (Array 4 demo_struct)
   \<and> \<not> bulk_closure (\<lambda>k. k \<noteq> UntypedNil) (Struct [(''p'', Pointer (Basic KInt))])
   \<and> copyto_genStatement demo_genv (Slice demo_struct) ''this'' ''that''
       = ([P ''copy(that, this)''], None)
   \<and> copyto_genStatement demo_genv (Array 4 demo_struct) ''this'' ''that''
       = ([P ''that = this''], None)"
  using bulk_predicate_and_bulk_copy
          [of "Array 4 demo_struct" demo_struct demo_genv 4 "''this''" "''that''" demo_equal "[]"]
        bulk_predicate_and_bulk_copy
          [of "Struct [(''p'', Pointer (Basic KInt))]" demo_struct demo_genv 4 "''this''"
              "''that''" demo_equal "[]"]
  by (simp add: demo_struct_def demo_fields_def emit_def)




text \<open>
  What \<^verbatim>\<open>Add\<close> of the deep-copy generator does check: the number of arguments and that
  the two types are identical. In both refusals the registry is not asked for a name.
\<close>

lemma copyto_Add_checks:
  "(length typs \<noteq> 2 \<longrightarrow> copyto_Add env n typs = Inl (NotTwoArguments n))
   \<and> (length typs = 2 \<and> typs ! 0 \<noteq> typs ! 1 \<longrightarrow>
        copyto_Add env n typs = Inl (DifferentTypes n (typs ! 0) (typs ! 1)))
   \<and> (length typs = 2 \<and> typs ! 0 = typs ! 1 \<longrightarrow>
        copyto_Add env n typs = tm_SetFuncName env n (typs ! 0))"
  by (simp add: copyto_Add_def Identical_def)

text \<open>
  C9: \<^verbatim>\<open>Add\<close> of the deep-copy generator has no check that the argument type is a pointer, a
  slice or a map, although the documentation of the package requires one of these. A request
  with two arguments of type \<^verbatim>\<open>int\<close> reserves the name, and the function generated for it
  assigns to its own parameter.
\<close>

theorem copyto_Add_accepts_non_reference_type:
  "copyto_Add demo_genv ''deriveCopyTo'' [Basic KInt, Basic KInt] = Inr ''deriveCopyTo''
   \<and> copyto_genFunc demo_genv (Basic KInt) =
       ([P '''', P ''func deriveint(this, that int) {'', In, P ''that = this'', Out, P ''}''],
        None)"
  by (simp add: copyto_Add_def Identical_def demo_genv_def copyto_genFunc_def
      copyto_genStatement.simps emit_def and_then_def RelativeTo_def)

section \<open>The generated comparison and deep copy\<close>















section \<open>The printed functions on examples\<close>

text \<open>
  The comparison generated for a slice of structs, the deep copy generated for a slice of
  slices and the equality generated for a pointer to a struct, as the generators print them
  for package \<^verbatim>\<open>p\<close>.
\<close>

lemma compare_genFunc_slice_of_struct:
  "compare_genFunc demo_genv (Slice demo_struct) =
     ([P '''', P ''func deriveSliceOfq.T(this, that []q.T) int {'', In,
       P ''if this == nil {'', In,
         P ''if that == nil {'', In, P ''return 0'', Out, P ''}'',
         P ''return -1'', Out,
       P ''}'',
       P ''if that == nil {'', In, P ''return 1'', Out, P ''}'',
       P ''if len(this) != len(that) {'', In,
         P ''if len(this) < len(that) {'', In, P ''return -1'', Out, P ''}'',
         P ''return 1'', Out,
       P ''}'',
       P ''for i := 0; i < len(this); i++ {'', In,
         P ''if c := derivePtrToq.T(&this[i], &that[i]); c != 0 {'', In,
           P ''return c'', Out,
         P ''}'', Out,
       P ''}'',
       P ''return 0'', Out,
       P ''}''], None)"
  by (simp add: compare_genFunc_def compare_genStatement_def compare_field.simps
      demo_gen_simps)

lemma copyto_genFunc_slice_of_slices:
  "copyto_genFunc demo_genv (Slice (Slice (Basic KInt))) =
     ([P '''', P ''func deriveSliceOfSliceOfint(this, that [][]int) {'', In,
       P ''for this_i, this_value := range this {'', In,
         P ''if this_value == nil {'', In,
           P ''that[this_i] = nil'', Out,
         P ''} else {'', In,
           P ''if that[this_i] != nil {'', In,
             P ''if len(this_value) > len(that[this_i]) {'', In,
               P ''if cap(that[this_i]) >= len(this_value) {'', In,
                 P ''that[this_i] = (that[this_i])[:len(this_value)]'', Out,
               P ''} else {'', In,
                 P ''that[this_i] = make([]int, len(this_value))'', Out,
               P ''}'', Out,
             P ''} else if len(this_value) < len(that[this_i]) {'', In,
               P ''that[this_i] = (that[this_i])[:len(this_value)]'', Out,
             P ''}'', Out,
           P ''} else {'', In,
             P ''that[this_i] = make([]int, len(this_value))'', Out,
           P ''}'',
           P ''copy(that[this_i], this_value)'', Out,
         P ''}'', Out,
       P ''}'', Out,
       P ''}''], None)"
  by (simp add: copyto_genFunc_def copyto_genStatement.simps copyto_genField.simps
      slice_resize_lines_def copyto_wrap_def HasPrefix_def HasSuffix_def demo_gen_simps)

lemma genFuncFor_pointer_to_struct:
  "fst (genFuncFor demo_equal []
          (Pointer (Named ''p'' ''MyStruct'' []
             (Struct [(''Int64'', Basic KInt64), (''StringPtr'', Pointer (Basic KString))])))) =
     ([P '''', P ''func deriveEqualPtrToMyStruct(this, that *MyStruct) bool {'', In,
       P ''return (this == nil && that == nil) || (this != nil) && (that != nil) &&'', In,
         P ''this.Int64 == that.Int64 &&'',
         P ''((this.StringPtr == nil && that.StringPtr == nil) || (this.StringPtr != nil && that.StringPtr != nil && *this.StringPtr == *that.StringPtr))'',
       Out, Out,
       P ''}''], None)"
  by (simp add: genFuncFor_def Let_def demo_equal_def funcName_def eqFuncPrefix_def
      isComparable_canCopy emit_def and_then_def RelativeTo_def)

text \<open>
  An error of \<^verbatim>\<open>genStatement\<close> inside \<^verbatim>\<open>genField\<close> is dropped: for a field that is an array
  of channels the loop is opened, the error for the element type ends \<^verbatim>\<open>genStatement\<close>,
  and \<^verbatim>\<open>genField\<close> returns without an error and without the closing brace.
\<close>

lemma copyto_genField_drops_error:
  "copyto_genField demo_genv (Array 2 (Chan (Basic KInt))) ''this.F'' ''that.F'' =
     ([P ''for this_i, this_value := range this.F {'', In], None)"
  by (simp add: copyto_genStatement.simps copyto_genField.simps demo_gen_simps)

end
